theory Spec2Isabelle
  imports Complex_Main "HOL-Library.Log_Nat"
begin

unbundle bit_operations_syntax

section \<open>Data model\<close>

subsection \<open>Identifiers of the SmartThings client library\<close>

text \<open>
  The source names capabilities, attributes and commands through the constants
  \<^verbatim>\<open>Capability.x\<close>, \<^verbatim>\<open>Attribute.X\<close> and \<^verbatim>\<open>Command.X\<close> of the client library. Each class of
  constants is a datatype here; a capability identifier a device reports that is none of
  the seven the module names is \<open>Capability_other\<close> with its string.
\<close>

datatype Capability =
    Capability_audio_mute
  | Capability_audio_volume
  | Capability_media_input_source
  | Capability_media_playback
  | Capability_media_playback_repeat
  | Capability_media_playback_shuffle
  | Capability_switch
  | Capability_other string

datatype Attribute =
    Attribute_SWITCH
  | Attribute_MUTE
  | Attribute_VOLUME
  | Attribute_INPUT_SOURCE
  | Attribute_SUPPORTED_INPUT_SOURCES
  | Attribute_PLAYBACK_STATUS
  | Attribute_PLAYBACK_SHUFFLE
  | Attribute_PLAYBACK_REPEAT_MODE

datatype Command =
    Command_OFF
  | Command_ON
  | Command_MUTE
  | Command_UNMUTE
  | Command_SET_VOLUME
  | Command_VOLUME_UP
  | Command_VOLUME_DOWN
  | Command_PLAY
  | Command_PAUSE
  | Command_STOP
  | Command_SET_INPUT_SOURCE
  | Command_SET_PLAYBACK_SHUFFLE
  | Command_SET_PLAYBACK_REPEAT

subsection \<open>Enumerations of the host platform\<close>

datatype MediaPlayerState =
    State_BUFFERING
  | State_PAUSED
  | State_PLAYING
  | State_IDLE
  | State_ON
  | State_OFF

text \<open>\<^verbatim>\<open>RepeatMode\<close> is a string enumeration: a member is the string of its value.\<close>

datatype RepeatMode = RepeatMode_ALL | RepeatMode_OFF | RepeatMode_ONE

fun RepeatMode_value :: "RepeatMode \<Rightarrow> string" where
  "RepeatMode_value RepeatMode_ALL = ''all''"
| "RepeatMode_value RepeatMode_OFF = ''off''"
| "RepeatMode_value RepeatMode_ONE = ''one''"

subsection \<open>Python values\<close>

text \<open>
  \<^verbatim>\<open>get_attribute_value\<close> is typed \<^verbatim>\<open>Any\<close>: an attribute value of the snapshot is a
  decoded JSON value. \<open>PNone\<close> is Python's \<^verbatim>\<open>None\<close>, which is also what an accessor
  returns for "unknown".
\<close>

datatype pyval =
    PNone
  | PBool bool
  | PInt int
  | PStr string
  | PList "string list"

datatype py_error = TypeError | ValueError

text \<open>Truth value testing, as \<^verbatim>\<open>if x:\<close> does it.\<close>

fun py_bool :: "pyval \<Rightarrow> bool" where
  "py_bool PNone = False"
| "py_bool (PBool b) = b"
| "py_bool (PInt i) = (i \<noteq> 0)"
| "py_bool (PStr s) = (s \<noteq> [])"
| "py_bool (PList xs) = (xs \<noteq> [])"

text \<open>
  \<^verbatim>\<open>x in xs\<close> for a list of strings compares with \<^verbatim>\<open>==\<close>: only a string is equal
  to a string, and no value raises.
\<close>

fun py_in_list :: "pyval \<Rightarrow> string list \<Rightarrow> bool" where
  "py_in_list (PStr s) xs = (s \<in> set xs)"
| "py_in_list _ xs = False"

text \<open>
  \<^verbatim>\<open>k in d\<close> followed by \<^verbatim>\<open>d[k]\<close> for a dictionary with string keys: the key is
  hashed first, which raises \<^verbatim>\<open>TypeError\<close> for a list; any other value that is not a
  string is simply not a key.
\<close>

fun py_dict_get :: "(string \<times> 'v) list \<Rightarrow> pyval \<Rightarrow> py_error + 'v option" where
  "py_dict_get d (PStr s) = Inr (map_of d s)"
| "py_dict_get d (PList xs) = Inl TypeError"
| "py_dict_get d _ = Inr None"

text \<open>
  \<^verbatim>\<open>float(x)\<close>: an integer or a boolean converts, a list raises \<^verbatim>\<open>TypeError\<close>, and a
  string is parsed by Python's grammar of float literals, which raises \<^verbatim>\<open>ValueError\<close>
  where the string is not one. That grammar is the argument \<open>float_of_str\<close>. The
  result is the real number the float stands for; an integer beyond the range of a double,
  where \<^verbatim>\<open>float\<close> raises \<^verbatim>\<open>OverflowError\<close>, is outside the percentages 0 to 100 the
  volume takes and is not modelled.
\<close>

fun py_float :: "(string \<Rightarrow> py_error + real) \<Rightarrow> pyval \<Rightarrow> py_error + real" where
  "py_float float_of_str PNone = Inl TypeError"
| "py_float float_of_str (PBool b) = Inr (if b then 1 else 0)"
| "py_float float_of_str (PInt i) = Inr (real_of_int i)"
| "py_float float_of_str (PStr s) = float_of_str s"
| "py_float float_of_str (PList xs) = Inl TypeError"

text \<open>\<^verbatim>\<open>int(x)\<close> of a float truncates towards zero.\<close>

definition py_int :: "real \<Rightarrow> int" where
  "py_int x = (if 0 \<le> x then \<lfloor>x\<rfloor> else \<lceil>x\<rceil>)"

subsection \<open>Floats\<close>

text \<open>
  A Python float is an IEEE 754 double: a binary fraction with 53 significant bits, and
  below \<open>2 powi - 1022\<close> a multiple of \<open>2 powi - 1074\<close>. A float is written here as a
  real number, which stands for the double nearest to it, as a decimal literal does:
  \<open>double_round\<close> gives that double, a tie going to the even significand. Overflow to
  infinity, infinities and NaN are not modelled.

  \<open>binade x\<close> is the exponent \<open>e\<close> with \<open>2 powi e \<le> \<bar>x\<bar> < 2 powi (e + 1)\<close>, and
  \<open>double_ulp x\<close> the distance between neighbouring doubles at \<open>x\<close>.
\<close>

definition round_half_even :: "real \<Rightarrow> int" where
  "round_half_even x =
    (let f = \<lfloor>x\<rfloor>; d = x - real_of_int f
     in if d < 1 / 2 then f
        else if 1 / 2 < d then f + 1
        else if even f then f else f + 1)"

definition binade :: "real \<Rightarrow> int" where
  "binade x =
    (if 1 \<le> \<bar>x\<bar> then bitlen \<lfloor>\<bar>x\<bar>\<rfloor> - 1
     else - bitlen (\<lceil>1 / \<bar>x\<bar>\<rceil> - 1))"

definition double_ulp :: "real \<Rightarrow> real" where
  "double_ulp x = 2 powi (max (binade x) (- 1022) - 52)"

definition double_round :: "real \<Rightarrow> real" where
  "double_round x = real_of_int (round_half_even (x / double_ulp x)) * double_ulp x"

text \<open>The product of two floats is the exact product rounded to a double.\<close>

definition double_mul :: "real \<Rightarrow> real \<Rightarrow> real" where
  "double_mul x y = double_round (x * y)"

subsection \<open>The feature flags\<close>

text \<open>
  \<^verbatim>\<open>MediaPlayerEntityFeature\<close> is an integer flag enumeration of the host platform; the
  module uses eleven of its members. Their values are the ones the host platform
  declares, each a single bit.
\<close>

definition Feature_PAUSE :: int where "Feature_PAUSE = 1"
definition Feature_VOLUME_SET :: int where "Feature_VOLUME_SET = 4"
definition Feature_VOLUME_MUTE :: int where "Feature_VOLUME_MUTE = 8"
definition Feature_TURN_ON :: int where "Feature_TURN_ON = 128"
definition Feature_TURN_OFF :: int where "Feature_TURN_OFF = 256"
definition Feature_VOLUME_STEP :: int where "Feature_VOLUME_STEP = 1024"
definition Feature_SELECT_SOURCE :: int where "Feature_SELECT_SOURCE = 2048"
definition Feature_STOP :: int where "Feature_STOP = 4096"
definition Feature_PLAY :: int where "Feature_PLAY = 16384"
definition Feature_SHUFFLE_SET :: int where "Feature_SHUFFLE_SET = 32768"
definition Feature_REPEAT_SET :: int where "Feature_REPEAT_SET = 262144"

subsection \<open>The entity\<close>

text \<open>
  Modelled from the spec: the base class \<^verbatim>\<open>SmartThingsEntity\<close> and the device object are
  not part of the module. The spec describes the device as a status snapshot, a mapping
  of capability to attribute to value, read live on every access. The record holds what
  the module reads of it:
  \<^item> \<open>capabilities\<close>: the capabilities the device reports, which
    \<^verbatim>\<open>supports_capability\<close> tests;
  \<^item> \<open>status\<close>: the value \<^verbatim>\<open>get_attribute_value\<close> returns for a capability and an
    attribute, \<open>PNone\<close> where the snapshot has no value;
  \<^item> \<open>status_attributes\<close>: the dictionary \<^verbatim>\<open>self._device.status.attributes\<close>, from
    attribute name to the value of its entry;
  \<^item> \<open>supported_features\<close>: the feature mask \<^verbatim>\<open>_attr_supported_features\<close>.
\<close>

record entity =
  capabilities :: "Capability set"
  status :: "Capability \<Rightarrow> Attribute \<Rightarrow> pyval"
  status_attributes :: "string \<rightharpoonup> pyval"
  supported_features :: int

definition supports_capability :: "entity \<Rightarrow> Capability \<Rightarrow> bool" where
  "supports_capability self capability \<longleftrightarrow> capability \<in> capabilities self"

definition get_attribute_value :: "entity \<Rightarrow> Capability \<Rightarrow> Attribute \<Rightarrow> pyval" where
  "get_attribute_value self capability attribute = status self capability attribute"

section \<open>The module\<close>

definition CONTROLLABLE_SOURCES :: "string list" where
  "CONTROLLABLE_SOURCES = [''bluetooth'', ''wifi'']"

definition VALUE_TO_STATE :: "(string \<times> MediaPlayerState) list" where
  "VALUE_TO_STATE =
    [(''buffering'', State_BUFFERING),
     (''pause'', State_PAUSED),
     (''paused'', State_PAUSED),
     (''play'', State_PLAYING),
     (''playing'', State_PLAYING),
     (''stop'', State_IDLE),
     (''stopped'', State_IDLE),
     (''on'', State_ON),
     (''off'', State_OFF)]"

subsection \<open>Capability filter\<close>

definition supported :: "Capability list" where
  "supported =
    [Capability_audio_mute,
     Capability_audio_volume,
     Capability_media_input_source,
     Capability_media_playback,
     Capability_media_playback_repeat,
     Capability_media_playback_shuffle,
     Capability_switch]"

definition media_player_capabilities :: "Capability list" where
  "media_player_capabilities =
    [Capability_audio_mute,
     Capability_audio_volume,
     Capability_media_input_source,
     Capability_media_playback,
     Capability_media_playback_repeat,
     Capability_media_playback_shuffle]"

definition get_capabilities :: "Capability list \<Rightarrow> Capability list option" where
  "get_capabilities caps =
    (if list_ex (\<lambda>capability. capability \<in> set caps) media_player_capabilities
     then Some supported
     else None)"

subsection \<open>Feature resolver\<close>

definition determine_features :: "entity \<Rightarrow> int" where
  "determine_features self =
    (let features = Feature_PLAY OR Feature_PAUSE OR Feature_STOP;
         features = (if supports_capability self Capability_audio_volume
                     then features OR (Feature_VOLUME_SET OR Feature_VOLUME_STEP)
                     else features);
         features = (if supports_capability self Capability_audio_mute
                     then features OR Feature_VOLUME_MUTE
                     else features);
         features = (if supports_capability self Capability_switch
                     then features OR (Feature_TURN_ON OR Feature_TURN_OFF)
                     else features);
         features = (if supports_capability self Capability_media_input_source
                     then features OR Feature_SELECT_SOURCE
                     else features);
         features = (if supports_capability self Capability_media_playback_shuffle
                     then features OR Feature_SHUFFLE_SET
                     else features);
         features = (if supports_capability self Capability_media_playback_repeat
                     then features OR Feature_REPEAT_SET
                     else features)
     in features)"

text \<open>
  The constructor: the base class keeps the device, then the mask is computed once from
  the capabilities the device supports.
\<close>

definition SmartThingsMediaPlayer ::
  "Capability set \<Rightarrow> (Capability \<Rightarrow> Attribute \<Rightarrow> pyval) \<Rightarrow> (string \<rightharpoonup> pyval) \<Rightarrow> entity" where
  "SmartThingsMediaPlayer caps st attrs =
    (let self = \<lparr>capabilities = caps, status = st, status_attributes = attrs,
                   supported_features = 0\<rparr>
     in self\<lparr>supported_features := determine_features self\<rparr>)"

subsection \<open>Command dispatcher\<close>

text \<open>
  Modelled from the spec: the command executor is an external collaborator that accepts a
  capability, a command and an optional argument. It is the list of the triples submitted
  to it so far; a method of the entity takes the list and returns it extended.
\<close>

type_synonym device_command = "Capability \<times> Command \<times> pyval option"

definition execute_device_command ::
  "entity \<Rightarrow> Capability \<Rightarrow> Command \<Rightarrow> pyval option \<Rightarrow> device_command list \<Rightarrow> device_command list" where
  "execute_device_command self capability command argument sent =
    sent @ [(capability, command, argument)]"

definition async_turn_off :: "entity \<Rightarrow> device_command list \<Rightarrow> device_command list" where
  "async_turn_off self = execute_device_command self Capability_switch Command_OFF None"

definition async_turn_on :: "entity \<Rightarrow> device_command list \<Rightarrow> device_command list" where
  "async_turn_on self = execute_device_command self Capability_switch Command_ON None"

definition async_mute_volume :: "entity \<Rightarrow> bool \<Rightarrow> device_command list \<Rightarrow> device_command list" where
  "async_mute_volume self mute =
    (if mute then execute_device_command self Capability_audio_mute Command_MUTE None
     else execute_device_command self Capability_audio_mute Command_UNMUTE None)"

text \<open>
  The volume is a float: the real number given for it stands for the double nearest to
  it, and \<^verbatim>\<open>volume * 100\<close> is the product of doubles, rounded before \<^verbatim>\<open>int\<close> truncates it.
\<close>

definition async_set_volume_level :: "entity \<Rightarrow> real \<Rightarrow> device_command list \<Rightarrow> device_command list" where
  "async_set_volume_level self volume =
    execute_device_command self Capability_audio_volume Command_SET_VOLUME
      (Some (PInt (py_int (double_mul (double_round volume) 100))))"

definition async_volume_up :: "entity \<Rightarrow> device_command list \<Rightarrow> device_command list" where
  "async_volume_up self =
    execute_device_command self Capability_audio_volume Command_VOLUME_UP None"

definition async_volume_down :: "entity \<Rightarrow> device_command list \<Rightarrow> device_command list" where
  "async_volume_down self =
    execute_device_command self Capability_audio_volume Command_VOLUME_DOWN None"

definition async_media_play :: "entity \<Rightarrow> device_command list \<Rightarrow> device_command list" where
  "async_media_play self =
    execute_device_command self Capability_media_playback Command_PLAY None"

definition async_media_pause :: "entity \<Rightarrow> device_command list \<Rightarrow> device_command list" where
  "async_media_pause self =
    execute_device_command self Capability_media_playback Command_PAUSE None"

definition async_media_stop :: "entity \<Rightarrow> device_command list \<Rightarrow> device_command list" where
  "async_media_stop self =
    execute_device_command self Capability_media_playback Command_STOP None"

definition async_select_source :: "entity \<Rightarrow> string \<Rightarrow> device_command list \<Rightarrow> device_command list" where
  "async_select_source self src =
    execute_device_command self Capability_media_input_source Command_SET_INPUT_SOURCE
      (Some (PStr src))"

definition async_set_shuffle :: "entity \<Rightarrow> bool \<Rightarrow> device_command list \<Rightarrow> device_command list" where
  "async_set_shuffle self shuffle_arg =
    execute_device_command self Capability_media_playback_shuffle Command_SET_PLAYBACK_SHUFFLE
      (Some (PBool shuffle_arg))"

definition async_set_repeat :: "entity \<Rightarrow> RepeatMode \<Rightarrow> device_command list \<Rightarrow> device_command list" where
  "async_set_repeat self repeat_arg =
    execute_device_command self Capability_media_playback_repeat Command_SET_PLAYBACK_REPEAT
      (Some (PStr (RepeatMode_value repeat_arg)))"

subsection \<open>Property accessors\<close>

text \<open>
  \<^verbatim>\<open>if self.supported_features & FLAG:\<close> tests the masked value for being nonzero. The
  float \<open>volume_level\<close> returns is written as the real quotient, which stands for the
  double nearest to it.
\<close>

definition is_volume_muted :: "entity \<Rightarrow> pyval" where
  "is_volume_muted self =
    (if supported_features self AND Feature_VOLUME_MUTE \<noteq> 0
     then get_attribute_value self Capability_audio_mute Attribute_MUTE
     else PNone)"

definition volume_level ::
  "(string \<Rightarrow> py_error + real) \<Rightarrow> entity \<Rightarrow> py_error + real option" where
  "volume_level float_of_str self =
    (if supported_features self AND Feature_VOLUME_SET \<noteq> 0 then
       (let volume = get_attribute_value self Capability_audio_volume Attribute_VOLUME
        in if volume \<noteq> PNone then
             (case py_float float_of_str volume of
                Inl err \<Rightarrow> Inl err
              | Inr x \<Rightarrow> Inr (Some (x / 100)))
           else Inr None)
     else Inr None)"

definition source :: "entity \<Rightarrow> pyval" where
  "source self =
    (if supported_features self AND Feature_SELECT_SOURCE \<noteq> 0
     then get_attribute_value self Capability_media_input_source Attribute_INPUT_SOURCE
     else PNone)"

definition source_list :: "entity \<Rightarrow> pyval" where
  "source_list self =
    (if supported_features self AND Feature_SELECT_SOURCE \<noteq> 0
     then get_attribute_value self Capability_media_input_source
            Attribute_SUPPORTED_INPUT_SOURCES
     else PNone)"

definition shuffle :: "entity \<Rightarrow> pyval" where
  "shuffle self =
    (if supported_features self AND Feature_SHUFFLE_SET \<noteq> 0
     then get_attribute_value self Capability_media_playback_shuffle Attribute_PLAYBACK_SHUFFLE
     else PNone)"

definition repeat :: "entity \<Rightarrow> pyval" where
  "repeat self =
    (if supported_features self AND Feature_REPEAT_SET \<noteq> 0
     then get_attribute_value self Capability_media_playback_repeat
            Attribute_PLAYBACK_REPEAT_MODE
     else PNone)"

subsection \<open>State derivation\<close>

definition state :: "entity \<Rightarrow> py_error + MediaPlayerState" where
  "state self =
    (if py_bool (get_attribute_value self Capability_switch Attribute_SWITCH) then
       (if source self \<noteq> PNone \<and> py_in_list (source self) CONTROLLABLE_SOURCES then
          (let playback_status =
                 get_attribute_value self Capability_media_playback Attribute_PLAYBACK_STATUS
           in case py_dict_get VALUE_TO_STATE playback_status of
                Inl err \<Rightarrow> Inl err
              | Inr (Some mapped) \<Rightarrow> Inr mapped
              | Inr None \<Rightarrow> Inr State_ON)
        else Inr State_ON)
     else Inr State_OFF)"

definition media_title :: "entity \<Rightarrow> py_error + pyval" where
  "media_title self =
    (case state self of
       Inl err \<Rightarrow> Inl err
     | Inr st \<Rightarrow>
         (if st \<in> set [State_PLAYING, State_PAUSED] then
            (case status_attributes self ''trackDescription'' of
               Some v \<Rightarrow> Inr v
             | None \<Rightarrow> Inr PNone)
          else Inr PNone))"

section \<open>The rounding the spec names\<close>

text \<open>
  The spec gives the conversion to the remote percentage as \<^verbatim>\<open>round(local*100)\<close>:
  rounding to the nearest integer, a tie going to the even one as Python's \<^verbatim>\<open>round\<close>
  does. The source does not use it; it is here to be compared with what the source
  dispatches.
\<close>

definition spec_round :: "real \<Rightarrow> int" where
  "spec_round x = round_half_even x"

section \<open>Concrete devices\<close>

text \<open>
  A speaker that reports all seven capabilities, with the switch value, the input source
  and the playback status as given and fixed values for the other attributes; and a
  device that reports the playback capability only.
\<close>

definition example_status :: "pyval \<Rightarrow> pyval \<Rightarrow> pyval \<Rightarrow> Capability \<Rightarrow> Attribute \<Rightarrow> pyval" where
  "example_status sw src pb capability attribute =
    (if (capability, attribute) = (Capability_switch, Attribute_SWITCH) then sw
     else if (capability, attribute) = (Capability_media_input_source, Attribute_INPUT_SOURCE)
       then src
     else if (capability, attribute) = (Capability_media_playback, Attribute_PLAYBACK_STATUS)
       then pb
     else if (capability, attribute) = (Capability_audio_volume, Attribute_VOLUME)
       then PInt 50
     else if (capability, attribute) = (Capability_audio_mute, Attribute_MUTE)
       then PStr ''unmuted''
     else if (capability, attribute) =
         (Capability_media_input_source, Attribute_SUPPORTED_INPUT_SOURCES)
       then PList [''bluetooth'', ''wifi'', ''HDMI1'']
     else if (capability, attribute) =
         (Capability_media_playback_shuffle, Attribute_PLAYBACK_SHUFFLE)
       then PStr ''disabled''
     else if (capability, attribute) =
         (Capability_media_playback_repeat, Attribute_PLAYBACK_REPEAT_MODE)
       then PStr ''off''
     else PNone)"

definition example_speaker :: "pyval \<Rightarrow> pyval \<Rightarrow> pyval \<Rightarrow> entity" where
  "example_speaker sw src pb =
    SmartThingsMediaPlayer (set supported) (example_status sw src pb)
      [''trackDescription'' \<mapsto> PStr ''Track 1'']"

definition example_playback_only :: "pyval \<Rightarrow> pyval \<Rightarrow> pyval \<Rightarrow> entity" where
  "example_playback_only sw src pb =
    SmartThingsMediaPlayer {Capability_media_playback} (example_status sw src pb) Map.empty"

section \<open>Auxiliary facts\<close>

lemmas Feature_defs =
  Feature_PAUSE_def Feature_VOLUME_SET_def Feature_VOLUME_MUTE_def Feature_TURN_ON_def
  Feature_TURN_OFF_def Feature_VOLUME_STEP_def Feature_SELECT_SOURCE_def Feature_STOP_def
  Feature_PLAY_def Feature_SHUFFLE_SET_def Feature_REPEAT_SET_def

text \<open>The sequence of \<^verbatim>\<open>features |= ...\<close> statements is one union of guarded flag groups.\<close>

lemma determine_features_union:
  "determine_features self =
     (Feature_PLAY OR Feature_PAUSE OR Feature_STOP)
     OR (if Capability_audio_volume \<in> capabilities self
         then Feature_VOLUME_SET OR Feature_VOLUME_STEP else 0)
     OR (if Capability_audio_mute \<in> capabilities self then Feature_VOLUME_MUTE else 0)
     OR (if Capability_switch \<in> capabilities self
         then Feature_TURN_ON OR Feature_TURN_OFF else 0)
     OR (if Capability_media_input_source \<in> capabilities self
         then Feature_SELECT_SOURCE else 0)
     OR (if Capability_media_playback_shuffle \<in> capabilities self
         then Feature_SHUFFLE_SET else 0)
     OR (if Capability_media_playback_repeat \<in> capabilities self
         then Feature_REPEAT_SET else 0)"
  by (simp add: determine_features_def supports_capability_def Let_def ac_simps)

lemma constructed_features:
  "supported_features (SmartThingsMediaPlayer caps st attrs) =
     (Feature_PLAY OR Feature_PAUSE OR Feature_STOP)
     OR (if Capability_audio_volume \<in> caps then Feature_VOLUME_SET OR Feature_VOLUME_STEP else 0)
     OR (if Capability_audio_mute \<in> caps then Feature_VOLUME_MUTE else 0)
     OR (if Capability_switch \<in> caps then Feature_TURN_ON OR Feature_TURN_OFF else 0)
     OR (if Capability_media_input_source \<in> caps then Feature_SELECT_SOURCE else 0)
     OR (if Capability_media_playback_shuffle \<in> caps then Feature_SHUFFLE_SET else 0)
     OR (if Capability_media_playback_repeat \<in> caps then Feature_REPEAT_SET else 0)"
  by (simp add: SmartThingsMediaPlayer_def Let_def determine_features_union)

lemma constructed_fields:
  "capabilities (SmartThingsMediaPlayer caps st attrs) = caps"
  "status (SmartThingsMediaPlayer caps st attrs) = st"
  "status_attributes (SmartThingsMediaPlayer caps st attrs) = attrs"
  by (simp_all add: SmartThingsMediaPlayer_def Let_def)

lemma example_speaker_features:
  "supported_features (example_speaker sw src pb) = 318861"
  by (simp add: example_speaker_def constructed_features supported_def Feature_defs)

lemma example_speaker_fields:
  "status (example_speaker sw src pb) = example_status sw src pb"
  "status_attributes (example_speaker sw src pb) = [''trackDescription'' \<mapsto> PStr ''Track 1'']"
  by (simp_all add: example_speaker_def constructed_fields)

lemma example_playback_only_features:
  "supported_features (example_playback_only sw src pb) = 20481"
  by (simp add: example_playback_only_def constructed_features Feature_defs)

lemma example_playback_only_fields:
  "status (example_playback_only sw src pb) = example_status sw src pb"
  "status_attributes (example_playback_only sw src pb) = Map.empty"
  by (simp_all add: example_playback_only_def constructed_fields)

lemma example_status_values:
  "example_status sw src pb Capability_switch Attribute_SWITCH = sw"
  "example_status sw src pb Capability_media_input_source Attribute_INPUT_SOURCE = src"
  "example_status sw src pb Capability_media_playback Attribute_PLAYBACK_STATUS = pb"
  "example_status sw src pb Capability_audio_volume Attribute_VOLUME = PInt 50"
  "example_status sw src pb Capability_audio_mute Attribute_MUTE = PStr ''unmuted''"
  "example_status sw src pb Capability_media_input_source Attribute_SUPPORTED_INPUT_SOURCES =
     PList [''bluetooth'', ''wifi'', ''HDMI1'']"
  "example_status sw src pb Capability_media_playback_shuffle Attribute_PLAYBACK_SHUFFLE =
     PStr ''disabled''"
  "example_status sw src pb Capability_media_playback_repeat Attribute_PLAYBACK_REPEAT_MODE =
     PStr ''off''"
  by (simp_all add: example_status_def)

lemmas example_simps =
  example_speaker_features example_speaker_fields example_playback_only_features
  example_playback_only_fields example_status_values get_attribute_value_def

text \<open>
  Rounding to a double: rounding to the nearest integer fixes the integers and is
  monotonic; the binade of a number encloses it; and so rounding to a double is monotonic
  on the numbers from 0 on, and keeps a percentage within 0 to 100.
\<close>

lemma round_half_even_cases:
  "round_half_even x = \<lfloor>x\<rfloor> \<or> round_half_even x = \<lfloor>x\<rfloor> + 1"
  by (simp add: round_half_even_def Let_def)

lemma round_half_even_of_int: "round_half_even (real_of_int n) = n"
  by (simp add: round_half_even_def)

lemma round_half_even_mono:
  assumes "x \<le> y"
  shows "round_half_even x \<le> round_half_even y"
proof (cases "\<lfloor>x\<rfloor> = \<lfloor>y\<rfloor>")
  case True
  with assms show ?thesis
    by (auto simp: round_half_even_def Let_def)
next
  case False
  with assms have "\<lfloor>x\<rfloor> < \<lfloor>y\<rfloor>"
    using floor_mono [of x y] by linarith
  moreover have "round_half_even x \<le> \<lfloor>x\<rfloor> + 1"
    using round_half_even_cases [of x] by linarith
  moreover have "\<lfloor>y\<rfloor> \<le> round_half_even y"
    using round_half_even_cases [of y] by linarith
  ultimately show ?thesis by linarith
qed

lemma round_half_even_le:
  "x \<le> real_of_int n \<Longrightarrow> round_half_even x \<le> n"
  using round_half_even_mono [of x "real_of_int n"] by (simp add: round_half_even_of_int)

lemma round_half_even_ge:
  "real_of_int n \<le> x \<Longrightarrow> n \<le> round_half_even x"
  using round_half_even_mono [of "real_of_int n" x] by (simp add: round_half_even_of_int)

lemma two_powi_minus:
  "0 \<le> j \<Longrightarrow> (2 :: real) powi (- j) = 1 / 2 ^ nat j"
  by (cases "j = 0") (simp_all add: power_int_def field_simps)

lemma binade_bounds:
  assumes "x \<noteq> 0"
  shows "2 powi binade x \<le> \<bar>x\<bar>" and "\<bar>x\<bar> < 2 powi (binade x + 1)"
proof -
  have "2 powi binade x \<le> \<bar>x\<bar> \<and> \<bar>x\<bar> < 2 powi (binade x + 1)"
  proof (cases "1 \<le> \<bar>x\<bar>")
    case True
    define n where "n = \<lfloor>\<bar>x\<bar>\<rfloor>"
    have n: "0 < n" using True by (simp add: n_def)
    have b: "binade x = bitlen n - 1" using True by (simp add: binade_def n_def)
    have k: "1 \<le> bitlen n" using n by (auto simp: bitlen_alt_def)
    from bitlen_bounds [OF n]
    have lo: "2 ^ nat (bitlen n - 1) \<le> n" and hi: "n < 2 ^ nat (bitlen n)" by simp_all
    have "real_of_int (2 ^ nat (bitlen n - 1)) \<le> real_of_int n"
      using lo by (simp only: of_int_le_iff)
    then have "(2 :: real) ^ nat (bitlen n - 1) \<le> real_of_int n" by simp
    moreover have "real_of_int n \<le> \<bar>x\<bar>" unfolding n_def by linarith
    ultimately have "(2 :: real) ^ nat (bitlen n - 1) \<le> \<bar>x\<bar>" by linarith
    then have 1: "2 powi binade x \<le> \<bar>x\<bar>"
      using k by (simp add: b power_int_def)
    from hi have "n + 1 \<le> 2 ^ nat (bitlen n)" by simp
    then have "real_of_int (n + 1) \<le> real_of_int (2 ^ nat (bitlen n))"
      by (simp only: of_int_le_iff)
    then have "real_of_int (n + 1) \<le> (2 :: real) ^ nat (bitlen n)" by simp
    moreover have "\<bar>x\<bar> < real_of_int (n + 1)" unfolding n_def by linarith
    ultimately have "\<bar>x\<bar> < 2 ^ nat (bitlen n)" by linarith
    then have 2: "\<bar>x\<bar> < 2 powi (binade x + 1)"
      using k by (simp add: b power_int_def)
    from 1 2 show ?thesis ..
  next
    case False
    define y where "y = 1 / \<bar>x\<bar>"
    define m where "m = \<lceil>y\<rceil> - 1"
    have x: "0 < \<bar>x\<bar>" "\<bar>x\<bar> < 1" using False assms by simp_all
    then have y: "1 < y" by (simp add: y_def)
    then have m: "0 < m" unfolding m_def by linarith
    have b: "binade x = - bitlen m" using False by (simp add: binade_def m_def y_def)
    have k: "1 \<le> bitlen m" using m by (auto simp: bitlen_alt_def)
    from bitlen_bounds [OF m]
    have lo: "2 ^ nat (bitlen m - 1) \<le> m" and hi: "m < 2 ^ nat (bitlen m)" by simp_all
    have ym: "real_of_int m < y" "y \<le> real_of_int (m + 1)"
      unfolding m_def by linarith+
    from hi have "m + 1 \<le> 2 ^ nat (bitlen m)" by simp
    then have "real_of_int (m + 1) \<le> real_of_int (2 ^ nat (bitlen m))"
      by (simp only: of_int_le_iff)
    then have "real_of_int (m + 1) \<le> (2 :: real) ^ nat (bitlen m)" by simp
    with ym have yhi: "y \<le> 2 ^ nat (bitlen m)" by linarith
    have "real_of_int (2 ^ nat (bitlen m - 1)) \<le> real_of_int m"
      using lo by (simp only: of_int_le_iff)
    then have "(2 :: real) ^ nat (bitlen m - 1) \<le> real_of_int m" by simp
    with ym have ylo: "2 ^ nat (bitlen m - 1) < y" by linarith
    have xy: "\<bar>x\<bar> = 1 / y" by (simp add: y_def)
    have 1: "2 powi binade x \<le> \<bar>x\<bar>"
    proof -
      have "1 / 2 ^ nat (bitlen m) \<le> 1 / y"
        using yhi y by (intro divide_left_mono) simp_all
      moreover have "2 powi binade x = (1 / 2 ^ nat (bitlen m) :: real)"
        using k by (simp add: b two_powi_minus)
      ultimately show ?thesis by (simp add: xy)
    qed
    have 2: "\<bar>x\<bar> < 2 powi (binade x + 1)"
    proof -
      have "1 / y < 1 / 2 ^ nat (bitlen m - 1)"
        using ylo y by (intro divide_strict_left_mono) simp_all
      moreover have "2 powi (binade x + 1) = (1 / 2 ^ nat (bitlen m - 1) :: real)"
      proof -
        have "binade x + 1 = - (bitlen m - 1)" by (simp add: b)
        moreover have "0 \<le> bitlen m - 1" using k by simp
        ultimately show ?thesis
          by (simp only: two_powi_minus)
      qed
      ultimately show ?thesis by (simp add: xy)
    qed
    from 1 2 show ?thesis ..
  qed
  then show "2 powi binade x \<le> \<bar>x\<bar>" and "\<bar>x\<bar> < 2 powi (binade x + 1)" by simp_all
qed


lemma double_ulp_pos: "0 < double_ulp x"
  by (simp add: double_ulp_def)

lemma two_powi_scale:
  "(2 :: real) powi (e + 1) = real_of_int (2 ^ 53) * 2 powi (e - 52)"
  "(2 :: real) powi e = real_of_int (2 ^ 52) * 2 powi (e - 52)"
proof -
  have "(2 :: real) powi (e - 52 + 53) = 2 powi (e - 52) * 2 powi 53"
    by (rule power_int_add) simp
  moreover have "e - 52 + 53 = e + 1" by simp
  ultimately have "(2 :: real) powi (e + 1) = 2 powi (e - 52) * 2 powi 53"
    by (simp only:)
  then show "(2 :: real) powi (e + 1) = real_of_int (2 ^ 53) * 2 powi (e - 52)"
    by (simp only: power_int_numeral of_int_power of_int_numeral mult.commute)
  have "(2 :: real) powi (e - 52 + 52) = 2 powi (e - 52) * 2 powi 52"
    by (rule power_int_add) simp
  moreover have "e - 52 + 52 = e" by simp
  ultimately have "(2 :: real) powi e = 2 powi (e - 52) * 2 powi 52"
    by (simp only:)
  then show "(2 :: real) powi e = real_of_int (2 ^ 52) * 2 powi (e - 52)"
    by (simp only: power_int_numeral of_int_power of_int_numeral mult.commute)
qed

lemma double_ulp_scale:
  "2 powi (max (binade x) (- 1022) + 1) = real_of_int (2 ^ 53) * double_ulp x"
  "2 powi (max (binade x) (- 1022)) = real_of_int (2 ^ 52) * double_ulp x"
  unfolding double_ulp_def by (rule two_powi_scale)+

lemma double_round_zero: "double_round 0 = 0"
  by (simp add: double_round_def round_half_even_def)

lemma double_round_nonneg:
  assumes "0 \<le> x"
  shows "0 \<le> double_round x"
proof -
  have "0 \<le> x / double_ulp x"
    using assms double_ulp_pos [of x] by simp
  then have "0 \<le> round_half_even (x / double_ulp x)"
    using round_half_even_ge [of 0] by simp
  then show ?thesis
    using double_ulp_pos [of x] by (simp add: double_round_def)
qed

lemma binade_mono:
  assumes "0 < x" and "x \<le> y"
  shows "binade x \<le> binade y"
proof (rule ccontr)
  assume "\<not> binade x \<le> binade y"
  then have "binade y + 1 \<le> binade x" by simp
  then have "(2 :: real) powi (binade y + 1) \<le> 2 powi binade x"
    by (intro power_int_increasing) simp_all
  moreover have "\<bar>y\<bar> < 2 powi (binade y + 1)"
    using assms by (intro binade_bounds) simp
  moreover have "2 powi binade x \<le> \<bar>x\<bar>"
    using assms by (intro binade_bounds) simp
  ultimately show False using assms by simp
qed

lemma double_round_upper:
  assumes "0 < x"
  shows "double_round x \<le> 2 powi (max (binade x) (- 1022) + 1)"
proof -
  have "x < 2 powi (binade x + 1)"
    using binade_bounds(2) [of x] assms by simp
  also have "(2 :: real) powi (binade x + 1) \<le> 2 powi (max (binade x) (- 1022) + 1)"
    by (intro power_int_increasing) simp_all
  finally have "x \<le> real_of_int (2 ^ 53) * double_ulp x"
    by (simp only: double_ulp_scale)
  then have "x / double_ulp x \<le> real_of_int (2 ^ 53)"
    using double_ulp_pos [of x] by (simp add: field_simps)
  then have "round_half_even (x / double_ulp x) \<le> 2 ^ 53"
    by (rule round_half_even_le)
  then have "real_of_int (round_half_even (x / double_ulp x)) \<le> real_of_int (2 ^ 53)"
    by (simp only: of_int_le_iff)
  then have "double_round x \<le> real_of_int (2 ^ 53) * double_ulp x"
    unfolding double_round_def using double_ulp_pos [of x]
    by (intro mult_right_mono) simp_all
  then show ?thesis by (simp only: double_ulp_scale)
qed

lemma double_round_lower:
  assumes "0 < x" and "- 1022 \<le> binade x"
  shows "2 powi binade x \<le> double_round x"
proof -
  have m: "max (binade x) (- 1022) = binade x" using assms by simp
  have "2 powi binade x \<le> x"
    using binade_bounds(1) [of x] assms by simp
  then have "real_of_int (2 ^ 52) * double_ulp x \<le> x"
    using double_ulp_scale(2) [of x] by (simp only: m)
  then have "real_of_int (2 ^ 52) \<le> x / double_ulp x"
    using double_ulp_pos [of x] by (simp add: field_simps)
  then have "2 ^ 52 \<le> round_half_even (x / double_ulp x)"
    by (rule round_half_even_ge)
  then have "real_of_int (2 ^ 52) \<le> real_of_int (round_half_even (x / double_ulp x))"
    by (simp only: of_int_le_iff)
  then have "real_of_int (2 ^ 52) * double_ulp x \<le> double_round x"
    unfolding double_round_def using double_ulp_pos [of x]
    by (intro mult_right_mono) simp_all
  then show ?thesis
    using double_ulp_scale(2) [of x] by (simp only: m)
qed

lemma double_round_mono:
  assumes "0 \<le> x" and "x \<le> y"
  shows "double_round x \<le> double_round y"
proof (cases "x = 0")
  case True
  with assms show ?thesis by (simp add: double_round_zero double_round_nonneg)
next
  case False
  with assms have x: "0 < x" and y: "0 < y" by simp_all
  have b: "binade x \<le> binade y" using x assms(2) by (rule binade_mono)
  show ?thesis
  proof (cases "max (binade x) (- 1022) = max (binade y) (- 1022)")
    case True
    then have u: "double_ulp x = double_ulp y" by (simp add: double_ulp_def)
    have "x / double_ulp y \<le> y / double_ulp y"
      using assms(2) double_ulp_pos [of y] by (simp add: divide_right_mono)
    then have "round_half_even (x / double_ulp y) \<le> round_half_even (y / double_ulp y)"
      by (rule round_half_even_mono)
    then have "real_of_int (round_half_even (x / double_ulp y))
        \<le> real_of_int (round_half_even (y / double_ulp y))"
      by (simp only: of_int_le_iff)
    then show ?thesis
      unfolding double_round_def u using double_ulp_pos [of y]
      by (intro mult_right_mono) simp_all
  next
    case False
    with b have lt: "max (binade x) (- 1022) + 1 \<le> binade y" and n: "- 1022 \<le> binade y"
      by auto
    have "double_round x \<le> 2 powi (max (binade x) (- 1022) + 1)"
      using x by (rule double_round_upper)
    also have "(2 :: real) powi (max (binade x) (- 1022) + 1) \<le> 2 powi binade y"
      using lt by (intro power_int_increasing) simp_all
    also have "2 powi binade y \<le> double_round y"
      using y n by (rule double_round_lower)
    finally show ?thesis .
  qed
qed

lemma double_round_values:
  "double_round 1 = 1" "double_round 100 = 100" "double_round 50 = 50"
  "double_round (1 / 2) = 1 / 2"
  by code_simp+

lemma double_mul_percent_range:
  assumes "0 \<le> v" and "v \<le> 1"
  shows "0 \<le> double_mul (double_round v) 100" and "double_mul (double_round v) 100 \<le> 100"
proof -
  have d0: "0 \<le> double_round v" using assms(1) by (rule double_round_nonneg)
  have "double_round v \<le> double_round 1" using assms by (rule double_round_mono)
  then have d1: "double_round v \<le> 1" by (simp add: double_round_values)
  from d0 show "0 \<le> double_mul (double_round v) 100"
    by (simp add: double_mul_def double_round_nonneg)
  have "double_round (double_round v * 100) \<le> double_round 100"
    using d0 d1 by (intro double_round_mono) simp_all
  then show "double_mul (double_round v) 100 \<le> 100"
    by (simp add: double_mul_def double_round_values)
qed


text \<open>A double is its own nearest double: rounding a second time changes nothing.\<close>

lemma binade_le:
  assumes "x \<noteq> 0" and "\<bar>x\<bar> < 2 powi (k + 1)"
  shows "binade x \<le> k"
proof (rule ccontr)
  assume "\<not> binade x \<le> k"
  then have "k + 1 \<le> binade x" by simp
  then have "(2 :: real) powi (k + 1) \<le> 2 powi binade x"
    by (intro power_int_increasing) simp_all
  with binade_bounds(1) [OF assms(1)] assms(2) show False by simp
qed

lemma binade_ge:
  assumes "x \<noteq> 0" and "2 powi k \<le> \<bar>x\<bar>"
  shows "k \<le> binade x"
proof (rule ccontr)
  assume "\<not> k \<le> binade x"
  then have "binade x + 1 \<le> k" by simp
  then have "(2 :: real) powi (binade x + 1) \<le> 2 powi k"
    by (intro power_int_increasing) simp_all
  with binade_bounds(2) [OF assms(1)] assms(2) show False by simp
qed

lemma double_round_idem:
  assumes "0 \<le> x"
  shows "double_round (double_round x) = double_round x"
proof (cases "double_round x = 0")
  case True
  then show ?thesis by (simp add: double_round_zero)
next
  case False
  define e where "e = max (binade x) (- 1022)"
  define m where "m = round_half_even (x / double_ulp x)"
  define x' where "x' = double_round x"
  have x': "x' = real_of_int m * double_ulp x" by (simp add: x'_def m_def double_round_def)
  have u: "double_ulp x = 2 powi (e - 52)" by (simp add: double_ulp_def e_def)
  from False assms have xpos: "0 < x"
    by (cases "x = 0") (simp_all add: double_round_zero)
  from False double_round_nonneg [OF assms] have x'pos: "0 < x'" by (simp add: x'_def)
  have up: "x' \<le> 2 powi (e + 1)"
    using double_round_upper [OF xpos] by (simp add: x'_def e_def)
  show ?thesis
  proof (cases "x' = 2 powi (e + 1)")
    case True
    have "binade x' = e + 1"
    proof (rule antisym)
      have "\<bar>x'\<bar> < 2 powi (e + 1 + 1)"
        using True power_int_strict_increasing [of "e + 1" "e + 1 + 1" "2 :: real"] by simp
      with x'pos show "binade x' \<le> e + 1" by (intro binade_le) simp_all
      show "e + 1 \<le> binade x'" using x'pos True by (intro binade_ge) simp_all
    qed
    moreover have "- 1022 \<le> e" by (simp add: e_def)
    ultimately have u': "double_ulp x' = 2 powi (e + 1 - 52)"
      by (simp add: double_ulp_def)
    have sc: "(2 :: real) powi (e + 1) = real_of_int (2 ^ 52) * 2 powi (e + 1 - 52)"
      by (rule two_powi_scale(2))
    have "x' = real_of_int (2 ^ 52) * double_ulp x'"
      unfolding u' sc [symmetric] by (rule True)
    moreover from this have "x' / double_ulp x' = real_of_int (2 ^ 52)"
      using double_ulp_pos [of x'] by (simp add: field_simps)
    ultimately have "double_round x' = x'"
      unfolding double_round_def by (simp only: round_half_even_of_int)
    then show ?thesis by (simp add: x'_def)
  next
    case False
    with up have lt: "x' < 2 powi (e + 1)" by simp
    have "max (binade x') (- 1022) = e"
    proof (cases "- 1022 \<le> binade x")
      case True
      then have eb: "e = binade x" by (simp add: e_def)
      have "2 powi e \<le> x'"
        using double_round_lower [OF xpos True] by (simp add: x'_def eb)
      then have "e \<le> binade x'" using x'pos by (intro binade_ge) simp_all
      moreover have "binade x' \<le> e" using x'pos lt by (intro binade_le) simp_all
      ultimately show ?thesis using True eb by simp
    next
      case False
      then have e: "e = - 1022" by (simp add: e_def)
      have "binade x' \<le> e" using x'pos lt by (intro binade_le) simp_all
      then show ?thesis by (simp add: e)
    qed
    then have u': "double_ulp x' = double_ulp x" by (simp add: double_ulp_def e_def)
    have "x' / double_ulp x = real_of_int m"
      using double_ulp_pos [of x] by (simp add: x')
    then have "double_round x' = real_of_int m * double_ulp x"
      unfolding double_round_def u' by (simp only: round_half_even_of_int)
    then show ?thesis by (simp add: x' [symmetric] x'_def)
  qed
qed

text \<open>
  The percentage dispatched for some volumes. The double nearest to 0.29 lies below it,
  and its product with 100 is a double below 29; the double nearest to 0.3, written out
  in the sixth line, also lies below it, but its product with 100 rounds to the double 30.
\<close>

lemma percent_of_volume_values:
  "py_int (double_mul (double_round 0) 100) = 0"
  "py_int (double_mul (double_round (1 / 2)) 100) = 50"
  "py_int (double_mul (double_round 1) 100) = 100"
  "py_int (double_mul (double_round (29 / 100)) 100) = 28"
  "py_int (double_mul (double_round (3 / 10)) 100) = 30"
  "py_int (double_mul (double_round (5404319552844595 / 18014398509481984)) 100) = 30"
  "py_int (double_mul (double_round (999 / 1000)) 100) = 99"
  by code_simp+

lemma round_of_volume_values:
  "round_half_even (double_mul (double_round (999 / 1000)) 100) = 100"
  "round_half_even (999 / 10) = 100"
  by code_simp+

text \<open>The table, key by key.\<close>

lemma VALUE_TO_STATE_lookup:
  "map_of VALUE_TO_STATE p =
    (if p = ''buffering'' then Some State_BUFFERING
     else if p = ''pause'' \<or> p = ''paused'' then Some State_PAUSED
     else if p = ''play'' \<or> p = ''playing'' then Some State_PLAYING
     else if p = ''stop'' \<or> p = ''stopped'' then Some State_IDLE
     else if p = ''on'' then Some State_ON
     else if p = ''off'' then Some State_OFF
     else None)"
  by (simp add: VALUE_TO_STATE_def)

text \<open>
  The guard of the state derivation is Python's truth value test on the switch value:
  the state is OFF exactly for the values that test false.
\<close>

lemma state_switch_falsy:
  "\<not> py_bool (get_attribute_value self Capability_switch Attribute_SWITCH) \<Longrightarrow>
   state self = Inr State_OFF"
  by (simp add: state_def)

lemma state_not_controllable:
  assumes "py_bool (get_attribute_value self Capability_switch Attribute_SWITCH)"
    and "\<not> (\<exists>s. source self = PStr s \<and> s \<in> {''bluetooth'', ''wifi''})"
  shows "state self = Inr State_ON"
  using assms by (cases "source self") (auto simp: state_def CONTROLLABLE_SOURCES_def)

lemma state_controllable:
  assumes "py_bool (get_attribute_value self Capability_switch Attribute_SWITCH)"
    and "source self = PStr s" and "s \<in> {''bluetooth'', ''wifi''}"
  shows "state self =
    (case py_dict_get VALUE_TO_STATE
            (get_attribute_value self Capability_media_playback Attribute_PLAYBACK_STATUS) of
       Inl err \<Rightarrow> Inl err
     | Inr (Some mapped) \<Rightarrow> Inr mapped
     | Inr None \<Rightarrow> Inr State_ON)"
  using assms by (auto simp: state_def CONTROLLABLE_SOURCES_def Let_def)

section \<open>State derivation\<close>

text \<open>
  C1 (as amended). For every snapshot in which the switch attribute is on (the string
  "on" the vendor reports, or the boolean true): if the selected source exists and is
  "bluetooth" or "wifi", a playback status that is a key of the table gives the mapped
  state, which is BUFFERING, PAUSED, PLAYING or IDLE for the seven playback strings, ON
  for "on" and OFF for "off"; in every other case (source absent or not controllable;
  playback status absent, a string that is no key, or a boolean or an integer) the state
  is ON. A playback status that is a list cannot be hashed for the table lookup, and the
  read raises \<^verbatim>\<open>TypeError\<close>. Nothing is said here of a snapshot in which the switch
  attribute is off.
\<close>

theorem state_when_switch_on:
  "get_attribute_value self Capability_switch Attribute_SWITCH \<in> {PStr ''on'', PBool True} \<longrightarrow>
   (\<not> (\<exists>s. source self = PStr s \<and> s \<in> {''bluetooth'', ''wifi''}) \<longrightarrow>
      state self = Inr State_ON) \<and>
   ((\<exists>s. source self = PStr s \<and> s \<in> {''bluetooth'', ''wifi''}) \<longrightarrow>
      (case get_attribute_value self Capability_media_playback Attribute_PLAYBACK_STATUS of
         PStr p \<Rightarrow>
           state self = Inr
             (if p = ''buffering'' then State_BUFFERING
              else if p = ''pause'' \<or> p = ''paused'' then State_PAUSED
              else if p = ''play'' \<or> p = ''playing'' then State_PLAYING
              else if p = ''stop'' \<or> p = ''stopped'' then State_IDLE
              else if p = ''off'' then State_OFF
              else State_ON)
       | PList xs \<Rightarrow> state self = Inl TypeError
       | _ \<Rightarrow> state self = Inr State_ON))"
proof (intro conjI impI)
  assume "get_attribute_value self Capability_switch Attribute_SWITCH
    \<in> {PStr ''on'', PBool True}"
  then have sw: "py_bool (get_attribute_value self Capability_switch Attribute_SWITCH)"
    by auto
  assume "\<not> (\<exists>s. source self = PStr s \<and> s \<in> {''bluetooth'', ''wifi''})"
  with sw show "state self = Inr State_ON" by (rule state_not_controllable)
next
  assume "get_attribute_value self Capability_switch Attribute_SWITCH
    \<in> {PStr ''on'', PBool True}"
  then have sw: "py_bool (get_attribute_value self Capability_switch Attribute_SWITCH)"
    by auto
  assume "\<exists>s. source self = PStr s \<and> s \<in> {''bluetooth'', ''wifi''}"
  then obtain s where s: "source self = PStr s" "s \<in> {''bluetooth'', ''wifi''}" by blast
  show "case get_attribute_value self Capability_media_playback Attribute_PLAYBACK_STATUS of
         PStr p \<Rightarrow>
           state self = Inr
             (if p = ''buffering'' then State_BUFFERING
              else if p = ''pause'' \<or> p = ''paused'' then State_PAUSED
              else if p = ''play'' \<or> p = ''playing'' then State_PLAYING
              else if p = ''stop'' \<or> p = ''stopped'' then State_IDLE
              else if p = ''off'' then State_OFF
              else State_ON)
       | PList xs \<Rightarrow> state self = Inl TypeError
       | _ \<Rightarrow> state self = Inr State_ON"
    by (cases "get_attribute_value self Capability_media_playback Attribute_PLAYBACK_STATUS")
       (simp_all add: state_controllable [OF sw s] VALUE_TO_STATE_lookup)
qed

theorem state_when_switch_on_witness:
  "state (example_speaker (PStr ''on'') (PStr ''HDMI1'') (PStr ''playing'')) = Inr State_ON \<and>
   state (example_speaker (PStr ''on'') PNone (PStr ''playing'')) = Inr State_ON \<and>
   state (example_speaker (PStr ''on'') (PStr ''bluetooth'') (PStr ''playing'')) =
     Inr State_PLAYING \<and>
   state (example_speaker (PStr ''on'') (PStr ''bluetooth'') (PStr ''buffering'')) =
     Inr State_BUFFERING \<and>
   state (example_speaker (PStr ''on'') (PStr ''wifi'') (PStr ''paused'')) = Inr State_PAUSED \<and>
   state (example_speaker (PStr ''on'') (PStr ''wifi'') (PStr ''stopped'')) = Inr State_IDLE \<and>
   state (example_speaker (PStr ''on'') (PStr ''wifi'') (PStr ''on'')) = Inr State_ON \<and>
   state (example_speaker (PStr ''on'') (PStr ''wifi'') (PStr ''fast forwarding'')) =
     Inr State_ON \<and>
   state (example_speaker (PStr ''on'') (PStr ''wifi'') PNone) = Inr State_ON \<and>
   state (example_speaker (PBool True) (PStr ''wifi'') (PStr ''play'')) = Inr State_PLAYING \<and>
   state (example_playback_only (PStr ''on'') (PStr ''wifi'') (PStr ''playing'')) = Inr State_ON"
  using
    state_when_switch_on [of "example_speaker (PStr ''on'') (PStr ''HDMI1'') (PStr ''playing'')"]
    state_when_switch_on [of "example_speaker (PStr ''on'') PNone (PStr ''playing'')"]
    state_when_switch_on [of
      "example_speaker (PStr ''on'') (PStr ''bluetooth'') (PStr ''playing'')"]
    state_when_switch_on [of
      "example_speaker (PStr ''on'') (PStr ''bluetooth'') (PStr ''buffering'')"]
    state_when_switch_on [of "example_speaker (PStr ''on'') (PStr ''wifi'') (PStr ''paused'')"]
    state_when_switch_on [of "example_speaker (PStr ''on'') (PStr ''wifi'') (PStr ''stopped'')"]
    state_when_switch_on [of "example_speaker (PStr ''on'') (PStr ''wifi'') (PStr ''on'')"]
    state_when_switch_on [of
      "example_speaker (PStr ''on'') (PStr ''wifi'') (PStr ''fast forwarding'')"]
    state_when_switch_on [of "example_speaker (PStr ''on'') (PStr ''wifi'') PNone"]
    state_when_switch_on [of "example_speaker (PBool True) (PStr ''wifi'') (PStr ''play'')"]
    state_when_switch_on [of
      "example_playback_only (PStr ''on'') (PStr ''wifi'') (PStr ''playing'')"]
  by (simp add: source_def example_simps Feature_defs)

text \<open>
  The claim as stated puts every mapped state in BUFFERING, PAUSED, PLAYING, IDLE. The
  table also has the keys "on" and "off": with the switch on, the source "bluetooth" and
  the playback status "off", the mapped state returned is OFF.
\<close>

theorem state_mapped_off_counterexample:
  "get_attribute_value (example_speaker (PStr ''on'') (PStr ''bluetooth'') (PStr ''off''))
     Capability_switch Attribute_SWITCH = PStr ''on'' \<and>
   source (example_speaker (PStr ''on'') (PStr ''bluetooth'') (PStr ''off'')) =
     PStr ''bluetooth'' \<and>
   get_attribute_value (example_speaker (PStr ''on'') (PStr ''bluetooth'') (PStr ''off''))
     Capability_media_playback Attribute_PLAYBACK_STATUS = PStr ''off'' \<and>
   map_of VALUE_TO_STATE ''off'' = Some State_OFF \<and>
   state (example_speaker (PStr ''on'') (PStr ''bluetooth'') (PStr ''off'')) = Inr State_OFF \<and>
   State_OFF \<notin> {State_BUFFERING, State_PAUSED, State_PLAYING, State_IDLE}"
  by (simp add: state_def source_def example_simps Feature_defs CONTROLLABLE_SOURCES_def
      VALUE_TO_STATE_lookup)

text \<open>
  C2. The claim asks for the state OFF in every snapshot in which the switch attribute is
  off. The source tests the switch value with Python's truth value test, and the vendor
  reports the switch as the string "on" or "off", the strings that are also keys of the
  table. The string "off" is not empty and passes the test: at the snapshot with the
  switch "off", the source "bluetooth" and the playback status "playing" the state is
  PLAYING, and with the source "HDMI1" it is ON. The source returns OFF at neither.
\<close>

theorem state_switch_off_not_off:
  "get_attribute_value (example_speaker (PStr ''off'') (PStr ''bluetooth'') (PStr ''playing''))
     Capability_switch Attribute_SWITCH = PStr ''off'' \<and>
   state (example_speaker (PStr ''off'') (PStr ''bluetooth'') (PStr ''playing'')) =
     Inr State_PLAYING \<and>
   get_attribute_value (example_speaker (PStr ''off'') (PStr ''HDMI1'') (PStr ''playing''))
     Capability_switch Attribute_SWITCH = PStr ''off'' \<and>
   state (example_speaker (PStr ''off'') (PStr ''HDMI1'') (PStr ''playing'')) = Inr State_ON"
  by (simp add: state_def source_def example_simps Feature_defs CONTROLLABLE_SOURCES_def
      VALUE_TO_STATE_lookup)

section \<open>Capability filter\<close>

text \<open>
  C4. For every list of reported capability identifiers, \<open>get_capabilities\<close> returns the
  full list of the seven capabilities (mute, volume, input source, playback, repeat,
  shuffle, switch) if at least one of the six primary capabilities is among the reported
  ones, and returns nothing otherwise; the switch capability alone, or together with
  capabilities the module does not name, does not qualify.
\<close>

theorem get_capabilities_filter:
  "get_capabilities caps =
    (if set caps \<inter> {Capability_audio_mute, Capability_audio_volume,
          Capability_media_input_source, Capability_media_playback,
          Capability_media_playback_repeat, Capability_media_playback_shuffle} \<noteq> {}
     then Some [Capability_audio_mute, Capability_audio_volume,
          Capability_media_input_source, Capability_media_playback,
          Capability_media_playback_repeat, Capability_media_playback_shuffle,
          Capability_switch]
     else None) \<and>
   get_capabilities [Capability_switch] = None \<and>
   get_capabilities [Capability_other name, Capability_switch] = None"
  by (auto simp: get_capabilities_def media_player_capabilities_def supported_def)

theorem get_capabilities_filter_witness:
  "get_capabilities [Capability_other ''refresh'', Capability_audio_volume] =
     Some [Capability_audio_mute, Capability_audio_volume,
          Capability_media_input_source, Capability_media_playback,
          Capability_media_playback_repeat, Capability_media_playback_shuffle,
          Capability_switch] \<and>
   get_capabilities [Capability_other ''refresh'', Capability_switch] = None \<and>
   get_capabilities [] = None"
  using
    get_capabilities_filter [of "[Capability_other ''refresh'', Capability_audio_volume]" "''refresh''"]
    get_capabilities_filter [of "[]" "''refresh''"]
  by simp

section \<open>Feature resolver\<close>

text \<open>
  C5. For every set of capabilities the device supports, the feature mask computed at
  construction is the union of the base flags PLAY, PAUSE, STOP with the flags of each
  supported capability. So PLAY, PAUSE and STOP are always set; VOLUME_SET and VOLUME_STEP
  are set exactly when volume is supported, VOLUME_MUTE exactly when mute is, TURN_ON and
  TURN_OFF exactly when switch is, SELECT_SOURCE exactly when input source is, SHUFFLE_SET
  exactly when shuffle is, REPEAT_SET exactly when repeat is; and no bit outside these
  eleven flags is set.
\<close>

theorem constructed_feature_mask:
  "supported_features (SmartThingsMediaPlayer caps st attrs) =
     (Feature_PLAY OR Feature_PAUSE OR Feature_STOP)
     OR (if Capability_audio_volume \<in> caps then Feature_VOLUME_SET OR Feature_VOLUME_STEP else 0)
     OR (if Capability_audio_mute \<in> caps then Feature_VOLUME_MUTE else 0)
     OR (if Capability_switch \<in> caps then Feature_TURN_ON OR Feature_TURN_OFF else 0)
     OR (if Capability_media_input_source \<in> caps then Feature_SELECT_SOURCE else 0)
     OR (if Capability_media_playback_shuffle \<in> caps then Feature_SHUFFLE_SET else 0)
     OR (if Capability_media_playback_repeat \<in> caps then Feature_REPEAT_SET else 0) \<and>
   supported_features (SmartThingsMediaPlayer caps st attrs) AND Feature_PLAY \<noteq> 0 \<and>
   supported_features (SmartThingsMediaPlayer caps st attrs) AND Feature_PAUSE \<noteq> 0 \<and>
   supported_features (SmartThingsMediaPlayer caps st attrs) AND Feature_STOP \<noteq> 0 \<and>
   (supported_features (SmartThingsMediaPlayer caps st attrs) AND Feature_VOLUME_SET \<noteq> 0)
     = (Capability_audio_volume \<in> caps) \<and>
   (supported_features (SmartThingsMediaPlayer caps st attrs) AND Feature_VOLUME_STEP \<noteq> 0)
     = (Capability_audio_volume \<in> caps) \<and>
   (supported_features (SmartThingsMediaPlayer caps st attrs) AND Feature_VOLUME_MUTE \<noteq> 0)
     = (Capability_audio_mute \<in> caps) \<and>
   (supported_features (SmartThingsMediaPlayer caps st attrs) AND Feature_TURN_ON \<noteq> 0)
     = (Capability_switch \<in> caps) \<and>
   (supported_features (SmartThingsMediaPlayer caps st attrs) AND Feature_TURN_OFF \<noteq> 0)
     = (Capability_switch \<in> caps) \<and>
   (supported_features (SmartThingsMediaPlayer caps st attrs) AND Feature_SELECT_SOURCE \<noteq> 0)
     = (Capability_media_input_source \<in> caps) \<and>
   (supported_features (SmartThingsMediaPlayer caps st attrs) AND Feature_SHUFFLE_SET \<noteq> 0)
     = (Capability_media_playback_shuffle \<in> caps) \<and>
   (supported_features (SmartThingsMediaPlayer caps st attrs) AND Feature_REPEAT_SET \<noteq> 0)
     = (Capability_media_playback_repeat \<in> caps) \<and>
   supported_features (SmartThingsMediaPlayer caps st attrs) AND
     NOT (Feature_PLAY OR Feature_PAUSE OR Feature_STOP OR Feature_VOLUME_SET
          OR Feature_VOLUME_STEP OR Feature_VOLUME_MUTE OR Feature_TURN_ON OR Feature_TURN_OFF
          OR Feature_SELECT_SOURCE OR Feature_SHUFFLE_SET OR Feature_REPEAT_SET) = 0"
proof (intro conjI)
  show "supported_features (SmartThingsMediaPlayer caps st attrs) =
     (Feature_PLAY OR Feature_PAUSE OR Feature_STOP)
     OR (if Capability_audio_volume \<in> caps then Feature_VOLUME_SET OR Feature_VOLUME_STEP else 0)
     OR (if Capability_audio_mute \<in> caps then Feature_VOLUME_MUTE else 0)
     OR (if Capability_switch \<in> caps then Feature_TURN_ON OR Feature_TURN_OFF else 0)
     OR (if Capability_media_input_source \<in> caps then Feature_SELECT_SOURCE else 0)
     OR (if Capability_media_playback_shuffle \<in> caps then Feature_SHUFFLE_SET else 0)
     OR (if Capability_media_playback_repeat \<in> caps then Feature_REPEAT_SET else 0)"
    by (rule constructed_features)
qed (simp_all add: constructed_features Feature_defs)

theorem constructed_feature_mask_witness:
  "supported_features
     (SmartThingsMediaPlayer {Capability_audio_volume, Capability_switch}
        (example_status (PBool True) PNone PNone) Map.empty) = 21893 \<and>
   21893 = (16384 + 4096 + 1 + (4 + 1024) + (128 + 256) :: int)"
  using constructed_feature_mask [of "{Capability_audio_volume, Capability_switch}"
      "example_status (PBool True) PNone PNone" Map.empty]
  by (simp add: Feature_defs)

text \<open>
  C6. The feature mask is monotonic in the capabilities: every feature bit set in the
  mask computed from a set of supported capabilities is also set in the mask computed from
  that set with one more capability.
\<close>

theorem feature_mask_monotonic:
  "bit (supported_features (SmartThingsMediaPlayer caps st attrs)) n \<Longrightarrow>
   bit (supported_features (SmartThingsMediaPlayer (insert c caps) st attrs)) n"
  by (auto simp add: constructed_features bit_or_iff split: if_splits)

theorem feature_mask_monotonic_witness:
  "bit (supported_features (SmartThingsMediaPlayer {Capability_audio_volume}
          (example_status (PBool True) PNone PNone) Map.empty)) 2 \<and>
   bit (supported_features
          (SmartThingsMediaPlayer (insert Capability_switch {Capability_audio_volume})
          (example_status (PBool True) PNone PNone) Map.empty)) 2"
proof -
  have h: "bit (supported_features (SmartThingsMediaPlayer {Capability_audio_volume}
          (example_status (PBool True) PNone PNone) Map.empty)) 2"
    by (simp add: constructed_features Feature_defs bit_iff_odd)
  from h feature_mask_monotonic [OF h, of Capability_switch] show ?thesis by simp
qed

section \<open>Property accessors\<close>

text \<open>
  C7. When the state derivation returns a state, \<open>media_title\<close> returns a value exactly
  when that state is PLAYING or PAUSED and the title attribute \<^verbatim>\<open>trackDescription\<close>
  exists in the snapshot, and then it returns the value of that attribute; for the states
  OFF, ON, BUFFERING and IDLE, and when the title attribute is missing, it returns
  \<^verbatim>\<open>None\<close>. An error of the state derivation is the error of \<open>media_title\<close>.
\<close>

theorem media_title_gated_by_state:
  "(state self = Inr st \<and> (st = State_PLAYING \<or> st = State_PAUSED) \<and>
    status_attributes self ''trackDescription'' = Some v \<longrightarrow> media_title self = Inr v) \<and>
   (state self = Inr st \<and>
    (st = State_OFF \<or> st = State_ON \<or> st = State_BUFFERING \<or> st = State_IDLE) \<longrightarrow>
      media_title self = Inr PNone) \<and>
   (state self = Inr st \<and> status_attributes self ''trackDescription'' = None \<longrightarrow>
      media_title self = Inr PNone) \<and>
   (state self = Inl err \<longrightarrow> media_title self = Inl err)"
  by (auto simp: media_title_def)

theorem media_title_gated_by_state_witness:
  "media_title (example_speaker (PBool True) (PStr ''bluetooth'') (PStr ''playing'')) =
     Inr (PStr ''Track 1'') \<and>
   media_title (example_speaker (PBool True) (PStr ''wifi'') (PStr ''paused'')) =
     Inr (PStr ''Track 1'') \<and>
   media_title (example_speaker (PBool True) (PStr ''wifi'') (PStr ''buffering'')) = Inr PNone \<and>
   media_title (example_speaker (PBool True) (PStr ''HDMI1'') (PStr ''playing'')) = Inr PNone \<and>
   media_title (example_speaker (PBool False) (PStr ''wifi'') (PStr ''playing'')) = Inr PNone"
proof -
  have s1: "state (example_speaker (PBool True) (PStr ''bluetooth'') (PStr ''playing'')) =
      Inr State_PLAYING"
    and s2: "state (example_speaker (PBool True) (PStr ''wifi'') (PStr ''paused'')) =
      Inr State_PAUSED"
    and s3: "state (example_speaker (PBool True) (PStr ''wifi'') (PStr ''buffering'')) =
      Inr State_BUFFERING"
    and s4: "state (example_speaker (PBool True) (PStr ''HDMI1'') (PStr ''playing'')) =
      Inr State_ON"
    and s5: "state (example_speaker (PBool False) (PStr ''wifi'') (PStr ''playing'')) =
      Inr State_OFF"
    by (simp_all add: state_def source_def example_simps Feature_defs CONTROLLABLE_SOURCES_def
        VALUE_TO_STATE_lookup)
  show ?thesis
    using
      media_title_gated_by_state [of
        "example_speaker (PBool True) (PStr ''bluetooth'') (PStr ''playing'')"
        State_PLAYING "PStr ''Track 1''"]
      media_title_gated_by_state [of
        "example_speaker (PBool True) (PStr ''wifi'') (PStr ''paused'')"
        State_PAUSED "PStr ''Track 1''"]
      media_title_gated_by_state [of
        "example_speaker (PBool True) (PStr ''wifi'') (PStr ''buffering'')" State_BUFFERING]
      media_title_gated_by_state [of
        "example_speaker (PBool True) (PStr ''HDMI1'') (PStr ''playing'')" State_ON]
      media_title_gated_by_state [of
        "example_speaker (PBool False) (PStr ''wifi'') (PStr ''playing'')" State_OFF]
    by (simp add: s1 s2 s3 s4 s5 example_simps)
qed

text \<open>
  C8. For each of the accessors \<open>is_volume_muted\<close>, \<open>volume_level\<close>, \<open>source\<close>,
  \<open>source_list\<close>, \<open>shuffle\<close> and \<open>repeat\<close>: if its feature bit (VOLUME_MUTE, VOLUME_SET,
  SELECT_SOURCE, SELECT_SOURCE, SHUFFLE_SET, REPEAT_SET) is absent from the mask, the
  accessor returns \<^verbatim>\<open>None\<close> and raises no error; if the bit is present, it returns the
  value read from the snapshot, which for \<open>volume_level\<close> is converted: a missing volume
  gives \<^verbatim>\<open>None\<close>, any other value \<open>v\<close> gives \<^verbatim>\<open>float(v) / 100\<close>.
\<close>

theorem accessors_feature_gated:
  "(supported_features self AND Feature_VOLUME_MUTE = 0 \<longrightarrow> is_volume_muted self = PNone) \<and>
   (supported_features self AND Feature_VOLUME_SET = 0 \<longrightarrow>
      volume_level float_of_str self = Inr None) \<and>
   (supported_features self AND Feature_SELECT_SOURCE = 0 \<longrightarrow>
      source self = PNone \<and> source_list self = PNone) \<and>
   (supported_features self AND Feature_SHUFFLE_SET = 0 \<longrightarrow> shuffle self = PNone) \<and>
   (supported_features self AND Feature_REPEAT_SET = 0 \<longrightarrow> repeat self = PNone) \<and>
   (supported_features self AND Feature_VOLUME_MUTE \<noteq> 0 \<longrightarrow>
      is_volume_muted self = get_attribute_value self Capability_audio_mute Attribute_MUTE) \<and>
   (supported_features self AND Feature_VOLUME_SET \<noteq> 0 \<longrightarrow>
      volume_level float_of_str self =
        (case get_attribute_value self Capability_audio_volume Attribute_VOLUME of
           PNone \<Rightarrow> Inr None
         | PBool b \<Rightarrow> Inr (Some ((if b then 1 else 0) / 100))
         | PInt r \<Rightarrow> Inr (Some (real_of_int r / 100))
         | PStr s \<Rightarrow>
             (case float_of_str s of Inl err \<Rightarrow> Inl err | Inr x \<Rightarrow> Inr (Some (x / 100)))
         | PList xs \<Rightarrow> Inl TypeError)) \<and>
   (supported_features self AND Feature_SELECT_SOURCE \<noteq> 0 \<longrightarrow>
      source self =
        get_attribute_value self Capability_media_input_source Attribute_INPUT_SOURCE \<and>
      source_list self =
        get_attribute_value self Capability_media_input_source
          Attribute_SUPPORTED_INPUT_SOURCES) \<and>
   (supported_features self AND Feature_SHUFFLE_SET \<noteq> 0 \<longrightarrow>
      shuffle self =
        get_attribute_value self Capability_media_playback_shuffle
          Attribute_PLAYBACK_SHUFFLE) \<and>
   (supported_features self AND Feature_REPEAT_SET \<noteq> 0 \<longrightarrow>
      repeat self =
        get_attribute_value self Capability_media_playback_repeat
          Attribute_PLAYBACK_REPEAT_MODE)"
proof -
  have vol: "supported_features self AND Feature_VOLUME_SET \<noteq> 0 \<Longrightarrow>
      volume_level float_of_str self =
        (case get_attribute_value self Capability_audio_volume Attribute_VOLUME of
           PNone \<Rightarrow> Inr None
         | PBool b \<Rightarrow> Inr (Some ((if b then 1 else 0) / 100))
         | PInt r \<Rightarrow> Inr (Some (real_of_int r / 100))
         | PStr s \<Rightarrow>
             (case float_of_str s of Inl err \<Rightarrow> Inl err | Inr x \<Rightarrow> Inr (Some (x / 100)))
         | PList xs \<Rightarrow> Inl TypeError)"
    by (cases "get_attribute_value self Capability_audio_volume Attribute_VOLUME")
       (simp_all add: volume_level_def Let_def)
  show ?thesis
    using vol
    by (simp add: is_volume_muted_def volume_level_def source_def source_list_def
        shuffle_def repeat_def)
qed

theorem accessors_feature_gated_witness:
  "is_volume_muted (example_playback_only (PBool True) (PStr ''wifi'') (PStr ''playing'')) = PNone \<and>
   volume_level (\<lambda>s. Inl ValueError)
     (example_playback_only (PBool True) (PStr ''wifi'') (PStr ''playing'')) = Inr None \<and>
   source (example_playback_only (PBool True) (PStr ''wifi'') (PStr ''playing'')) = PNone \<and>
   source_list (example_playback_only (PBool True) (PStr ''wifi'') (PStr ''playing'')) = PNone \<and>
   shuffle (example_playback_only (PBool True) (PStr ''wifi'') (PStr ''playing'')) = PNone \<and>
   repeat (example_playback_only (PBool True) (PStr ''wifi'') (PStr ''playing'')) = PNone \<and>
   is_volume_muted (example_speaker (PBool True) (PStr ''wifi'') (PStr ''playing'')) =
     PStr ''unmuted'' \<and>
   volume_level (\<lambda>s. Inl ValueError)
     (example_speaker (PBool True) (PStr ''wifi'') (PStr ''playing'')) = Inr (Some (1 / 2)) \<and>
   source (example_speaker (PBool True) (PStr ''wifi'') (PStr ''playing'')) = PStr ''wifi'' \<and>
   source_list (example_speaker (PBool True) (PStr ''wifi'') (PStr ''playing'')) =
     PList [''bluetooth'', ''wifi'', ''HDMI1''] \<and>
   shuffle (example_speaker (PBool True) (PStr ''wifi'') (PStr ''playing'')) =
     PStr ''disabled'' \<and>
   repeat (example_speaker (PBool True) (PStr ''wifi'') (PStr ''playing'')) = PStr ''off''"
  using
    accessors_feature_gated [of
      "example_playback_only (PBool True) (PStr ''wifi'') (PStr ''playing'')"
      "\<lambda>s. Inl ValueError"]
    accessors_feature_gated [of
      "example_speaker (PBool True) (PStr ''wifi'') (PStr ''playing'')"
      "\<lambda>s. Inl ValueError"]
  by (simp add: example_simps Feature_defs)

text \<open>
  C10. When the VOLUME_SET bit is present and the volume read from the snapshot is
  \<^verbatim>\<open>None\<close>, \<open>volume_level\<close> returns \<^verbatim>\<open>None\<close>: the conversion is not attempted, so
  nothing is raised, whatever the conversion of strings does.
\<close>

theorem volume_level_none_when_volume_absent:
  "supported_features self AND Feature_VOLUME_SET \<noteq> 0 \<Longrightarrow>
   get_attribute_value self Capability_audio_volume Attribute_VOLUME = PNone \<Longrightarrow>
   volume_level float_of_str self = Inr None"
  by (simp add: volume_level_def)

theorem volume_level_none_when_volume_absent_witness:
  "supported_features
     (SmartThingsMediaPlayer {Capability_audio_volume} (\<lambda>capability attribute. PNone) Map.empty)
     AND Feature_VOLUME_SET \<noteq> 0 \<and>
   get_attribute_value
     (SmartThingsMediaPlayer {Capability_audio_volume} (\<lambda>capability attribute. PNone) Map.empty)
     Capability_audio_volume Attribute_VOLUME = PNone \<and>
   volume_level (\<lambda>s. Inl ValueError)
     (SmartThingsMediaPlayer {Capability_audio_volume} (\<lambda>capability attribute. PNone) Map.empty)
     = Inr None"
proof -
  have h1: "supported_features
     (SmartThingsMediaPlayer {Capability_audio_volume} (\<lambda>capability attribute. PNone) Map.empty)
     AND Feature_VOLUME_SET \<noteq> 0"
    by (simp add: constructed_features Feature_defs)
  have h2: "get_attribute_value
     (SmartThingsMediaPlayer {Capability_audio_volume} (\<lambda>capability attribute. PNone) Map.empty)
     Capability_audio_volume Attribute_VOLUME = PNone"
    by (simp add: get_attribute_value_def constructed_fields)
  from h1 h2 volume_level_none_when_volume_absent [OF h1 h2, of "\<lambda>s. Inl ValueError"]
  show ?thesis by simp
qed

section \<open>Volume conversion\<close>

text \<open>
  C3 (as amended). For every local volume \<open>v\<close> in \<open>[0, 1]\<close>, \<open>async_set_volume_level\<close>
  dispatches \<^verbatim>\<open>int(v * 100)\<close>: the product of the doubles, truncated to an integer and not
  rounded, which lies in 0 to 100. For every integer \<open>r\<close> from 0 to 100 the snapshot holds
  as the volume, \<open>volume_level\<close> returns \<open>r / 100\<close> when the VOLUME_SET bit is set. In
  particular the volumes 0, 0.5 and 1 dispatch 0, 50 and 100, and the volumes 0, 50 and
  100 read back as 0, 0.5 and 1.
\<close>

theorem volume_conversion:
  "(0 \<le> v \<and> v \<le> 1 \<longrightarrow>
      async_set_volume_level self v sent =
        sent @ [(Capability_audio_volume, Command_SET_VOLUME,
                 Some (PInt \<lfloor>double_mul (double_round v) 100\<rfloor>))] \<and>
      0 \<le> \<lfloor>double_mul (double_round v) 100\<rfloor> \<and>
      \<lfloor>double_mul (double_round v) 100\<rfloor> \<le> 100) \<and>
   async_set_volume_level self 0 sent =
     sent @ [(Capability_audio_volume, Command_SET_VOLUME, Some (PInt 0))] \<and>
   async_set_volume_level self (1 / 2) sent =
     sent @ [(Capability_audio_volume, Command_SET_VOLUME, Some (PInt 50))] \<and>
   async_set_volume_level self 1 sent =
     sent @ [(Capability_audio_volume, Command_SET_VOLUME, Some (PInt 100))] \<and>
   (supported_features self AND Feature_VOLUME_SET \<noteq> 0 \<and>
    get_attribute_value self Capability_audio_volume Attribute_VOLUME = PInt r \<and>
    0 \<le> r \<and> r \<le> 100 \<longrightarrow>
      volume_level float_of_str self = Inr (Some (real_of_int r / 100)))"
proof (intro conjI impI)
  assume v: "0 \<le> v \<and> v \<le> 1"
  then have lo: "0 \<le> double_mul (double_round v) 100"
    and hi: "double_mul (double_round v) 100 \<le> 100"
    by (simp_all add: double_mul_percent_range)
  from lo show "async_set_volume_level self v sent =
        sent @ [(Capability_audio_volume, Command_SET_VOLUME,
                 Some (PInt \<lfloor>double_mul (double_round v) 100\<rfloor>))]"
    by (simp add: async_set_volume_level_def execute_device_command_def py_int_def)
  from lo show "0 \<le> \<lfloor>double_mul (double_round v) 100\<rfloor>" by simp
  from hi show "\<lfloor>double_mul (double_round v) 100\<rfloor> \<le> 100" by linarith
next
  assume "supported_features self AND Feature_VOLUME_SET \<noteq> 0 \<and>
    get_attribute_value self Capability_audio_volume Attribute_VOLUME = PInt r \<and>
    0 \<le> r \<and> r \<le> 100"
  then show "volume_level float_of_str self = Inr (Some (real_of_int r / 100))"
    by (simp add: volume_level_def)
qed (simp_all add: async_set_volume_level_def execute_device_command_def
    percent_of_volume_values)

theorem volume_conversion_witness:
  "async_set_volume_level (example_speaker (PStr ''on'') (PStr ''wifi'') (PStr ''playing''))
     (29 / 100) [] = [(Capability_audio_volume, Command_SET_VOLUME, Some (PInt 28))] \<and>
   async_set_volume_level (example_speaker (PStr ''on'') (PStr ''wifi'') (PStr ''playing''))
     (3 / 10) [] = [(Capability_audio_volume, Command_SET_VOLUME, Some (PInt 30))] \<and>
   async_set_volume_level (example_speaker (PStr ''on'') (PStr ''wifi'') (PStr ''playing''))
     (5404319552844595 / 18014398509481984) [] =
     [(Capability_audio_volume, Command_SET_VOLUME, Some (PInt 30))] \<and>
   volume_level (\<lambda>s. Inl ValueError)
     (example_speaker (PStr ''on'') (PStr ''wifi'') (PStr ''playing'')) = Inr (Some (1 / 2))"
proof -
  have f: "\<lfloor>double_mul (double_round (29 / 100)) 100\<rfloor> = 28"
    "\<lfloor>double_mul (double_round (3 / 10)) 100\<rfloor> = 30"
    "\<lfloor>double_mul (double_round (5404319552844595 / 18014398509481984)) 100\<rfloor> = 30"
    by code_simp+
  show ?thesis
    using
      volume_conversion [of "29 / 100"
        "example_speaker (PStr ''on'') (PStr ''wifi'') (PStr ''playing'')" "[]" 50
        "\<lambda>s. Inl ValueError"]
      volume_conversion [of "3 / 10"
        "example_speaker (PStr ''on'') (PStr ''wifi'') (PStr ''playing'')" "[]" 50
        "\<lambda>s. Inl ValueError"]
      volume_conversion [of "5404319552844595 / 18014398509481984"
        "example_speaker (PStr ''on'') (PStr ''wifi'') (PStr ''playing'')" "[]" 50
        "\<lambda>s. Inl ValueError"]
    by (simp add: f example_simps Feature_defs)
qed

text \<open>
  The claim as stated has the dispatched argument rounded. At the volume 0.999 the source
  dispatches 99, where rounding the product, as a double or exactly, gives 100.
\<close>

theorem volume_round_counterexample:
  "(0 :: real) \<le> 999 / 1000 \<and> (999 / 1000 :: real) \<le> 1 \<and>
   async_set_volume_level (example_speaker (PStr ''on'') (PStr ''wifi'') (PStr ''playing''))
     (999 / 1000) [] = [(Capability_audio_volume, Command_SET_VOLUME, Some (PInt 99))] \<and>
   spec_round (double_mul (double_round (999 / 1000)) 100) = 100 \<and>
   spec_round (999 / 1000 * 100) = 100"
  by (simp add: async_set_volume_level_def execute_device_command_def spec_round_def
      percent_of_volume_values round_of_volume_values)

text \<open>
  The read is gated like the other accessors: a device whose mask lacks VOLUME_SET reads
  as \<^verbatim>\<open>None\<close> even where the snapshot holds a volume.
\<close>

lemma volume_level_gate_example:
  "get_attribute_value (example_playback_only (PBool True) (PStr ''wifi'') (PStr ''playing''))
     Capability_audio_volume Attribute_VOLUME = PInt 50 \<and>
   volume_level float_of_str
     (example_playback_only (PBool True) (PStr ''wifi'') (PStr ''playing'')) = Inr None"
  by (simp add: volume_level_def example_simps Feature_defs)

section \<open>Command dispatcher\<close>

text \<open>
  C9. Each imperative action (turn on and off, mute and unmute, set volume, volume up and
  down, play, pause, stop, select source, set shuffle, set repeat) submits exactly one
  triple of capability, command and optional argument to the command executor, and
  nothing else: the list of submitted triples grows by that one triple. This holds for
  every entity, so also when the feature bit of the action is absent from the mask: no
  action reads the mask, and no action has an error outcome of its own.
\<close>

theorem actions_forward_one_command:
  "async_turn_off self sent = sent @ [(Capability_switch, Command_OFF, None)] \<and>
   async_turn_on self sent = sent @ [(Capability_switch, Command_ON, None)] \<and>
   async_mute_volume self True sent = sent @ [(Capability_audio_mute, Command_MUTE, None)] \<and>
   async_mute_volume self False sent = sent @ [(Capability_audio_mute, Command_UNMUTE, None)] \<and>
   async_set_volume_level self volume sent =
     sent @ [(Capability_audio_volume, Command_SET_VOLUME,
              Some (PInt (py_int (double_mul (double_round volume) 100))))] \<and>
   async_volume_up self sent = sent @ [(Capability_audio_volume, Command_VOLUME_UP, None)] \<and>
   async_volume_down self sent = sent @ [(Capability_audio_volume, Command_VOLUME_DOWN, None)] \<and>
   async_media_play self sent = sent @ [(Capability_media_playback, Command_PLAY, None)] \<and>
   async_media_pause self sent = sent @ [(Capability_media_playback, Command_PAUSE, None)] \<and>
   async_media_stop self sent = sent @ [(Capability_media_playback, Command_STOP, None)] \<and>
   async_select_source self src sent =
     sent @ [(Capability_media_input_source, Command_SET_INPUT_SOURCE, Some (PStr src))] \<and>
   async_set_shuffle self shuffle_arg sent =
     sent @ [(Capability_media_playback_shuffle, Command_SET_PLAYBACK_SHUFFLE,
              Some (PBool shuffle_arg))] \<and>
   async_set_repeat self repeat_arg sent =
     sent @ [(Capability_media_playback_repeat, Command_SET_PLAYBACK_REPEAT,
              Some (PStr (RepeatMode_value repeat_arg)))]"
  by (simp add: execute_device_command_def async_turn_off_def async_turn_on_def
      async_mute_volume_def async_set_volume_level_def async_volume_up_def
      async_volume_down_def async_media_play_def async_media_pause_def async_media_stop_def
      async_select_source_def async_set_shuffle_def async_set_repeat_def)

theorem actions_forward_one_command_witness:
  "supported_features (example_playback_only (PBool True) PNone PNone)
     AND Feature_VOLUME_SET = 0 \<and>
   async_set_volume_level (example_playback_only (PBool True) PNone PNone) (1 / 2) [] =
     [(Capability_audio_volume, Command_SET_VOLUME, Some (PInt 50))] \<and>
   supported_features (example_playback_only (PBool True) PNone PNone)
     AND Feature_SELECT_SOURCE = 0 \<and>
   async_select_source (example_playback_only (PBool True) PNone PNone) ''wifi''
     [(Capability_audio_volume, Command_SET_VOLUME, Some (PInt 50))] =
     [(Capability_audio_volume, Command_SET_VOLUME, Some (PInt 50)),
      (Capability_media_input_source, Command_SET_INPUT_SOURCE, Some (PStr ''wifi''))]"
  using
    actions_forward_one_command [of "example_playback_only (PBool True) PNone PNone" "[]"
      "1 / 2" "''wifi''"]
    actions_forward_one_command [of "example_playback_only (PBool True) PNone PNone"
      "[(Capability_audio_volume, Command_SET_VOLUME, Some (PInt 50))]" "1 / 2" "''wifi''"]
  by (simp add: example_simps Feature_defs percent_of_volume_values)

end
